theory Spec2Isabelle
  imports Main
begin

section \<open>JavaScript values as the handlers see them\<close>

text \<open>
  The handlers of \<^verbatim>\<open>src/index.ts\<close> receive their parameters from a JSON-RPC
  message, so every value they inspect is JSON data or \<^verbatim>\<open>undefined\<close>.
  JSON data is the datatype \<open>json\<close>; a JavaScript value is a \<open>json option\<close> with
  \<open>None\<close> for \<^verbatim>\<open>undefined\<close>.  An object lists its own properties in property
  order with distinct keys (what \<^verbatim>\<open>JSON.parse\<close> builds).  Strings are lists of
  code units below 256.

  Numbers are IEEE doubles in JavaScript.  They are kept abstract here: the type
  parameter \<open>'n\<close> stands for the number type, and what the run-time system does with
  numbers is read from the \<open>platform\<close> record below.
\<close>

datatype 'n json =
    JNull
  | JBool bool
  | JNum 'n
  | JStr string
  | JArr "'n json list"
  | JObj "(string \<times> 'n json) list"

type_synonym 'n jsval = "'n json option"

text \<open>
  Every \<^verbatim>\<open>throw\<close> of the source builds a plain \<^verbatim>\<open>Error\<close> with a message.  The
  run-time system throws \<^verbatim>\<open>TypeError\<close> (the URL constructor, a failed conversion of
  an object to a primitive, a failed \<^verbatim>\<open>fetch\<close>) and \<^verbatim>\<open>SyntaxError\<close>
  (\<^verbatim>\<open>response.json()\<close> on a body that is not JSON).
\<close>

datatype js_error = Error string | TypeError string | SyntaxError string

fun message :: "js_error \<Rightarrow> string" where
  "message (Error m) = m"
| "message (TypeError m) = m"
| "message (SyntaxError m) = m"

text \<open>
  What the handlers use of the run-time system and is not written in the repository:
  the WHATWG URL constructor (only its \<^verbatim>\<open>pathname\<close> is read; \<open>None\<close> when the
  constructor throws), the texts of the two \<^verbatim>\<open>TypeError\<close>s, and the operations on
  numbers.
\<close>

record 'n platform =
  URL_pathname :: "string \<Rightarrow> string option"
  invalid_url_message :: string
  cannot_convert_message :: string
  StringToNumber :: "string \<Rightarrow> 'n"
  NumberToString :: "'n \<Rightarrow> string"
  number_NaN :: 'n
  number_zero :: 'n
  number_one :: 'n
  number_falsy :: "'n \<Rightarrow> bool"
  number_finite :: "'n \<Rightarrow> bool"

subsection \<open>Property access\<close>

text \<open>
  \<^verbatim>\<open>request.params.arguments?.k\<close>: the argument bag is optional; when present it is
  a plain object.  None of the property names the handlers read is a member of
  \<^verbatim>\<open>Object.prototype\<close>, so the access finds an own property or \<^verbatim>\<open>undefined\<close>.
\<close>

type_synonym 'n arguments = "(string \<times> 'n json) list option"

definition arg :: "'n arguments \<Rightarrow> string \<Rightarrow> 'n jsval" where
  "arg a k = (case a of None \<Rightarrow> None | Some kvs \<Rightarrow> map_of kvs k)"

text \<open>
  \<^verbatim>\<open>v.k\<close> on a value that is neither \<^verbatim>\<open>undefined\<close> nor \<^verbatim>\<open>null\<close> (the only use,
  \<^verbatim>\<open>payload.text\<close>, comes after the test \<^verbatim>\<open>!payload\<close>), for a name \<open>k\<close> that no
  prototype defines: an own property of an object, \<^verbatim>\<open>undefined\<close> on a boolean,
  number, string or array.
\<close>

fun property :: "'n jsval \<Rightarrow> string \<Rightarrow> 'n jsval" where
  "property (Some (JObj kvs)) k = map_of kvs k"
| "property _ k = None"

subsection \<open>Conversions\<close>

text \<open>
  \<^verbatim>\<open>String(v)\<close> and the template literal \<^verbatim>\<open>`${v}`\<close>.  An array is joined with
  commas, \<^verbatim>\<open>null\<close> elements giving the empty string.  A plain object is converted
  by \<^verbatim>\<open>Object.prototype.toString\<close>, unless it has an own property \<^verbatim>\<open>toString\<close>:
  that property holds JSON data, which is not callable, and the conversion throws a
  \<^verbatim>\<open>TypeError\<close>.
\<close>

fun ToString_json :: "'n platform \<Rightarrow> 'n json \<Rightarrow> js_error + string"
  and join :: "'n platform \<Rightarrow> 'n json list \<Rightarrow> js_error + string"
where
  "ToString_json P JNull = Inr ''null''"
| "ToString_json P (JBool b) = Inr (if b then ''true'' else ''false'')"
| "ToString_json P (JNum n) = Inr (NumberToString P n)"
| "ToString_json P (JStr s) = Inr s"
| "ToString_json P (JArr xs) = join P xs"
| "ToString_json P (JObj kvs) =
     (if map_of kvs ''toString'' \<noteq> None then Inl (TypeError (cannot_convert_message P))
      else Inr ''[object Object]'')"
| "join P [] = Inr ''''"
| "join P (x # xs) =
     (case (if x = JNull then Inr '''' else ToString_json P x) of
        Inl e \<Rightarrow> Inl e
      | Inr s \<Rightarrow>
          (if xs = [] then Inr s
           else (case join P xs of Inl e \<Rightarrow> Inl e | Inr r \<Rightarrow> Inr (s @ '','' @ r))))"

definition String :: "'n platform \<Rightarrow> 'n jsval \<Rightarrow> js_error + string" where
  "String P v = (case v of None \<Rightarrow> Inr ''undefined'' | Some j \<Rightarrow> ToString_json P j)"

text \<open>\<^verbatim>\<open>Number(v)\<close>: an array or object is first converted to a string as above.\<close>

definition Number :: "'n platform \<Rightarrow> 'n jsval \<Rightarrow> js_error + 'n" where
  "Number P v =
     (case v of
        None \<Rightarrow> Inr (number_NaN P)
      | Some JNull \<Rightarrow> Inr (number_zero P)
      | Some (JBool b) \<Rightarrow> Inr (if b then number_one P else number_zero P)
      | Some (JNum n) \<Rightarrow> Inr n
      | Some (JStr s) \<Rightarrow> Inr (StringToNumber P s)
      | Some j \<Rightarrow> (case ToString_json P j of Inl e \<Rightarrow> Inl e | Inr s \<Rightarrow> Inr (StringToNumber P s)))"

text \<open>Truthiness, as tested by \<^verbatim>\<open>!v\<close> and \<^verbatim>\<open>v ? a : b\<close>.\<close>

fun truthy :: "'n platform \<Rightarrow> 'n jsval \<Rightarrow> bool" where
  "truthy P None = False"
| "truthy P (Some JNull) = False"
| "truthy P (Some (JBool b)) = b"
| "truthy P (Some (JNum n)) = (\<not> number_falsy P n)"
| "truthy P (Some (JStr s)) = (s \<noteq> [])"
| "truthy P (Some (JArr xs)) = True"
| "truthy P (Some (JObj kvs)) = True"

subsection \<open>\<^verbatim>\<open>JSON.stringify\<close>\<close>

definition dquote :: char where "dquote = CHR 0x22"
definition backslash :: char where "backslash = CHR 0x5C"
definition newline :: char where "newline = CHR 0x0A"

definition hex_digit :: "nat \<Rightarrow> char" where
  "hex_digit d = (if d < 10 then char_of (48 + d) else char_of (87 + d))"

text \<open>QuoteJSONString of ECMA-262, on code units below 256.\<close>

definition quote_char :: "char \<Rightarrow> string" where
  "quote_char c =
     (if c = dquote then [backslash, dquote]
      else if c = backslash then [backslash, backslash]
      else if c = CHR 0x08 then [backslash, CHR ''b'']
      else if c = CHR 0x09 then [backslash, CHR ''t'']
      else if c = newline then [backslash, CHR ''n'']
      else if c = CHR 0x0C then [backslash, CHR ''f'']
      else if c = CHR 0x0D then [backslash, CHR ''r'']
      else if (of_char c :: nat) < 32
        then [backslash, CHR ''u'', CHR ''0'', CHR ''0'',
              hex_digit (of_char c div 16), hex_digit (of_char c mod 16)]
      else [c])"

definition quote :: "string \<Rightarrow> string" where
  "quote s = dquote # concat (map quote_char s) @ [dquote]"

fun join_with :: "string \<Rightarrow> string list \<Rightarrow> string" where
  "join_with sep [] = []"
| "join_with sep [x] = x"
| "join_with sep (x # y # ys) = x @ sep @ join_with sep (y # ys)"

text \<open>
  SerializeJSONProperty with its two helpers for arrays and objects: \<open>gap\<close> is the
  indentation unit (empty for \<^verbatim>\<open>JSON.stringify(v)\<close>, two spaces for
  \<^verbatim>\<open>JSON.stringify(v, null, 2)\<close>) and \<open>indent\<close> the current indentation.
\<close>

definition wrap :: "string \<Rightarrow> string \<Rightarrow> string \<Rightarrow> string \<Rightarrow> string list \<Rightarrow> string" where
  "wrap opening closing gap stepback parts =
     (if parts = [] then opening @ closing
      else if gap = [] then opening @ join_with '','' parts @ closing
      else opening @ [newline] @ (stepback @ gap)
           @ join_with ('','' @ [newline] @ (stepback @ gap)) parts
           @ [newline] @ stepback @ closing)"

fun serialize :: "'n platform \<Rightarrow> string \<Rightarrow> string \<Rightarrow> 'n json \<Rightarrow> string"
  and serialize_elements :: "'n platform \<Rightarrow> string \<Rightarrow> string \<Rightarrow> 'n json list \<Rightarrow> string list"
  and serialize_members ::
    "'n platform \<Rightarrow> string \<Rightarrow> string \<Rightarrow> (string \<times> 'n json) list \<Rightarrow> string list"
where
  "serialize P gap indent JNull = ''null''"
| "serialize P gap indent (JBool b) = (if b then ''true'' else ''false'')"
| "serialize P gap indent (JNum n) =
     (if number_finite P n then NumberToString P n else ''null'')"
| "serialize P gap indent (JStr s) = quote s"
| "serialize P gap indent (JArr xs) =
     wrap ''['' '']'' gap indent (serialize_elements P gap (indent @ gap) xs)"
| "serialize P gap indent (JObj kvs) =
     wrap ''{'' ''}'' gap indent (serialize_members P gap (indent @ gap) kvs)"
| "serialize_elements P gap indent [] = []"
| "serialize_elements P gap indent (x # xs) =
     serialize P gap indent x # serialize_elements P gap indent xs"
| "serialize_members P gap indent [] = []"
| "serialize_members P gap indent (kv # kvs) =
     (quote (fst kv) @ '':'' @ (if gap = [] then [] else '' '') @ serialize P gap indent (snd kv))
     # serialize_members P gap indent kvs"

definition JSON_stringify :: "'n platform \<Rightarrow> 'n json \<Rightarrow> string" where
  "JSON_stringify P v = serialize P [] [] v"

definition JSON_stringify_2 :: "'n platform \<Rightarrow> 'n json \<Rightarrow> string" where
  "JSON_stringify_2 P v = serialize P ''  '' [] v"

text \<open>
  An object literal built by a handler can hold \<^verbatim>\<open>undefined\<close> properties;
  \<^verbatim>\<open>JSON.stringify\<close> skips them.
\<close>

fun defined_properties :: "(string \<times> 'n jsval) list \<Rightarrow> (string \<times> 'n json) list" where
  "defined_properties [] = []"
| "defined_properties ((k, None) # kvs) = defined_properties kvs"
| "defined_properties ((k, Some v) # kvs) = (k, v) # defined_properties kvs"


section \<open>The resource catalog\<close>

record Task =
  Task_id :: string
  Task_title :: string
  Task_description :: string

text \<open>The object literal \<^verbatim>\<open>tasks\<close>: its own properties, in property order.\<close>

definition tasks :: "(string \<times> Task) list" where
  "tasks =
     [(''1'', \<lparr>Task_id = ''1'', Task_title = ''First Task'', Task_description = ''This is task 1''\<rparr>),
      (''2'', \<lparr>Task_id = ''2'', Task_title = ''Second Task'', Task_description = ''This is task 2''\<rparr>)]"

definition Task_json :: "Task \<Rightarrow> 'n json" where
  "Task_json t =
     JObj [(''id'', JStr (Task_id t)), (''title'', JStr (Task_title t)),
           (''description'', JStr (Task_description t))]"

text \<open>
  \<^verbatim>\<open>tasks[id]\<close> reads an own property or, failing that, an inherited one:
  \<^verbatim>\<open>tasks\<close> is an object literal, so its prototype is \<^verbatim>\<open>Object.prototype\<close>, whose
  members are functions, except the accessor \<^verbatim>\<open>__proto__\<close>, which yields
  \<^verbatim>\<open>Object.prototype\<close> itself (an object without enumerable properties).
\<close>

datatype 'n member = Undefined | Data "'n json" | Function

definition Object_prototype_functions :: "string list" where
  "Object_prototype_functions =
     [''constructor'', ''__defineGetter__'', ''__defineSetter__'', ''hasOwnProperty'',
      ''__lookupGetter__'', ''__lookupSetter__'', ''isPrototypeOf'',
      ''propertyIsEnumerable'', ''toString'', ''valueOf'', ''toLocaleString'']"

definition get_member :: "(string \<times> Task) list \<Rightarrow> string \<Rightarrow> 'n member" where
  "get_member store k =
     (case map_of store k of
        Some t \<Rightarrow> Data (Task_json t)
      | None \<Rightarrow>
          if k \<in> set Object_prototype_functions then Function
          else if k = ''__proto__'' then Data (JObj [])
          else Undefined)"

fun member_truthy :: "'n platform \<Rightarrow> 'n member \<Rightarrow> bool" where
  "member_truthy P Undefined = False"
| "member_truthy P (Data j) = truthy P (Some j)"
| "member_truthy P Function = True"

text \<open>\<^verbatim>\<open>JSON.stringify(v, null, 2)\<close> is \<^verbatim>\<open>undefined\<close> on a function.\<close>

fun member_stringify_2 :: "'n platform \<Rightarrow> 'n member \<Rightarrow> string option" where
  "member_stringify_2 P Undefined = None"
| "member_stringify_2 P (Data j) = Some (JSON_stringify_2 P j)"
| "member_stringify_2 P Function = None"

record Resource =
  uri :: string
  mimeType :: string
  name :: string
  resource_description :: string

definition list_resources :: "(string \<times> Task) list \<Rightarrow> Resource list" where
  "list_resources store =
     map (\<lambda>task. \<lparr>uri = ''task:///'' @ Task_id task, mimeType = ''application/json'',
                  name = Task_title task,
                  resource_description = ''Task: '' @ Task_title task\<rparr>)
       (map snd store)"

definition ListResources :: "Resource list" where
  "ListResources = list_resources tasks"

text \<open>\<^verbatim>\<open>pathname.replace(/^\//, '')\<close>: one slash at the start is removed, if there is one.\<close>

fun replace_leading_slash :: "string \<Rightarrow> string" where
  "replace_leading_slash [] = []"
| "replace_leading_slash (c # cs) = (if c = CHR ''/'' then cs else c # cs)"

record Contents =
  contents_uri :: string
  contents_mimeType :: string
  contents_text :: "string option"

definition read_resource ::
  "'n platform \<Rightarrow> (string \<times> Task) list \<Rightarrow> string \<Rightarrow> js_error + Contents list" where
  "read_resource P store request_uri =
     (case URL_pathname P request_uri of
        None \<Rightarrow> Inl (TypeError (invalid_url_message P))
      | Some pathname \<Rightarrow>
          (let ident = replace_leading_slash pathname;
               task = (get_member store ident :: 'n member)
           in if \<not> member_truthy P task
              then Inl (Error (''Task '' @ ident @ '' not found''))
              else Inr [\<lparr>contents_uri = request_uri,
                         contents_mimeType = ''application/json'',
                         contents_text = member_stringify_2 P task\<rparr>]))"

definition ReadResource :: "'n platform \<Rightarrow> string \<Rightarrow> js_error + Contents list" where
  "ReadResource P request_uri = read_resource P tasks request_uri"

section \<open>The tool registry\<close>

record 'n Tool =
  tool_name :: string
  tool_description :: string
  inputSchema :: "'n json"

definition described :: "string \<Rightarrow> string \<Rightarrow> 'n json" where
  "described ty d = JObj [(''type'', JStr ty), (''description'', JStr d)]"

definition object_schema :: "(string \<times> 'n json) list \<Rightarrow> string list \<Rightarrow> 'n json" where
  "object_schema props required =
     JObj [(''type'', JStr ''object''), (''properties'', JObj props),
           (''required'', JArr (map JStr required))]"

definition ListTools :: "'n Tool list" where
  "ListTools =
     [\<lparr>tool_name = ''create_note'', tool_description = ''Create a new note'',
       inputSchema = object_schema
         [(''title'', described ''string'' ''Title of the note''),
          (''content'', described ''string'' ''Text content of the note'')]
         [''title'', ''content'']\<rparr>,
      \<lparr>tool_name = ''memory_write'', tool_description = ''Write memory chunks to Halcyon'',
       inputSchema = object_schema
         [(''source'', described ''string'' ''Source identifier''),
          (''task_id'', described ''string'' ''Task identifier''),
          (''payload'', object_schema
             [(''text'', described ''string'' ''Text content of the memory chunk''),
              (''tag'', described ''string'' ''Tag for the memory chunk''),
              (''timestamp'', JObj [(''type'', JStr ''string''), (''format'', JStr ''date-time''),
                 (''description'', JStr ''Timestamp of the memory chunk'')])]
             [''text'', ''tag'', ''timestamp''])]
         [''source'', ''task_id'', ''payload'']\<rparr>,
      \<lparr>tool_name = ''list_tools'', tool_description = ''List available tools'',
       inputSchema = JObj [(''type'', JStr ''object''), (''properties'', JObj [])]\<rparr>,
      \<lparr>tool_name = ''rag_query'', tool_description = ''Query the RAG system'',
       inputSchema = object_schema
         [(''collection_name'', described ''string'' ''Name of the collection to query''),
          (''query'', described ''string'' ''Query text''),
          (''limit'', described ''integer'' ''Maximum number of results to return''),
          (''embedding_model'', described ''string'' ''Embedding model to use''),
          (''timeout'', described ''integer'' ''Timeout in seconds'')]
         [''collection_name'', ''query'']\<rparr>,
      \<lparr>tool_name = ''upload_documents'',
       tool_description = ''Upload documents to the RAG system'',
       inputSchema = object_schema
         [(''collection_name'', described ''string'' ''Name of the collection to upload to''),
          (''texts'', JObj [(''type'', JStr ''array''),
             (''items'', JObj [(''type'', JStr ''string'')]),
             (''description'', JStr ''List of documents to upload'')]),
          (''metadata'', JObj [(''type'', JStr ''array''),
             (''items'', JObj [(''type'', JStr ''object'')]),
             (''description'', JStr ''Optional metadata for the documents'')]),
          (''source'', described ''string'' ''Optional source information for the documents''),
          (''embedding_model'', described ''string'' ''Embedding model to use'')]
         [''collection_name'', ''texts'']\<rparr>]"


section \<open>The tool dispatcher\<close>

text \<open>
  What a handler does besides returning: lines written to the console and requests
  sent with \<^verbatim>\<open>fetch\<close>, in the order they happen.
\<close>

record Request =
  url :: string
  http_method :: string
  headers :: "(string \<times> string) list"
  body :: string

datatype event =
    ConsoleLog string
  | ConsoleError string js_error
  | Fetch Request

text \<open>
  The upstream service is the environment of the handler: for a request, \<^verbatim>\<open>fetch\<close>
  rejects (\<open>Inl\<close>) or resolves to a response, of which the handler reads \<^verbatim>\<open>ok\<close>,
  \<^verbatim>\<open>statusText\<close> and \<^verbatim>\<open>json()\<close> (which rejects when the body is not JSON).
\<close>

record 'n Response =
  ok :: bool
  statusText :: string
  json :: "js_error + 'n json"

type_synonym 'n upstream = "Request \<Rightarrow> js_error + 'n Response"

record Content =
  content_type :: string
  content_text :: string

type_synonym outcome = "event list \<times> (js_error + Content list)"

definition text_content :: "string \<Rightarrow> js_error + Content list" where
  "text_content s = Inr [\<lparr>content_type = ''text'', content_text = s\<rparr>]"

text \<open>Sequencing of steps that can throw.\<close>

definition and_then :: "'e + 'a \<Rightarrow> ('a \<Rightarrow> 'e + 'b) \<Rightarrow> 'e + 'b" where
  "and_then r f = (case r of Inl e \<Rightarrow> Inl e | Inr x \<Rightarrow> f x)"

subsection \<open>\<^verbatim>\<open>create_note\<close>\<close>

definition create_note :: "'n platform \<Rightarrow> 'n arguments \<Rightarrow> outcome" where
  "create_note P a =
     (case String P (arg a ''title'') of
        Inl e \<Rightarrow> ([], Inl e)
      | Inr title \<Rightarrow>
          (case String P (arg a ''content'') of
             Inl e \<Rightarrow> ([], Inl e)
           | Inr content \<Rightarrow>
               if title = [] \<or> content = []
               then ([], Inl (Error ''Title and content are required''))
               else ([ConsoleLog (''Created note: '' @ title)],
                     text_content (''Created note: '' @ title))))"

subsection \<open>\<^verbatim>\<open>list_tools\<close>\<close>

definition list_tools :: "'n platform \<Rightarrow> outcome" where
  "list_tools P =
     ([], text_content (JSON_stringify_2 P
        (JArr [JStr ''create_note'', JStr ''memory_write'', JStr ''list_tools'',
               JStr ''rag_query'', JStr ''upload_documents''])))"

subsection \<open>\<^verbatim>\<open>memory_write\<close>\<close>

text \<open>The body of the \<^verbatim>\<open>try\<close> block, then the \<^verbatim>\<open>catch\<close> clause around it.\<close>

definition memory_write_try :: "'n platform \<Rightarrow> 'n arguments \<Rightarrow> outcome" where
  "memory_write_try P a =
     (case String P (arg a ''source'') of
        Inl e \<Rightarrow> ([], Inl e)
      | Inr source \<Rightarrow>
          (case String P (arg a ''task_id'') of
             Inl e \<Rightarrow> ([], Inl e)
           | Inr task_id \<Rightarrow>
               (let payload = arg a ''payload'' in
                if source = [] \<or> task_id = [] \<or> \<not> truthy P payload
                then ([], Inl (Error ''Source, task_id, and payload are required''))
                else (case String P (property payload ''text'') of
                        Inl e \<Rightarrow> ([], Inl e)
                      | Inr payload_text \<Rightarrow>
                          ([ConsoleLog (''Received memory chunk from '' @ source @ '' for task ''
                                        @ task_id @ '': '' @ payload_text)],
                           text_content (''Processed memory chunk from '' @ source
                                         @ '' for task '' @ task_id))))))"

definition memory_write :: "'n platform \<Rightarrow> 'n arguments \<Rightarrow> outcome" where
  "memory_write P a =
     (case memory_write_try P a of
        (events, Inl error) \<Rightarrow>
          (events @ [ConsoleError ''Error processing memory_write:'' error],
           Inl (Error (''Failed to process memory_write: '' @ message error)))
      | (events, Inr result) \<Rightarrow> (events, Inr result))"

subsection \<open>The two delegating tools\<close>

text \<open>\<^verbatim>\<open>v ? Number(v) : undefined\<close>\<close>

definition optional_number :: "'n platform \<Rightarrow> 'n jsval \<Rightarrow> js_error + 'n jsval" where
  "optional_number P v =
     (if truthy P v then and_then (Number P v) (\<lambda>n. Inr (Some (JNum n))) else Inr None)"

text \<open>
  Both tools end with the same statements, which differ in the address and in the
  prefix of the error message only: the \<^verbatim>\<open>POST\<close> of the serialised object, the test of
  \<^verbatim>\<open>response.ok\<close>, and the response's JSON printed with indentation 2.
\<close>

definition post :: "'n platform \<Rightarrow> 'n upstream \<Rightarrow> string \<Rightarrow> string
    \<Rightarrow> (string \<times> 'n jsval) list \<Rightarrow> outcome" where
  "post P upstream address failure properties =
     (let request = \<lparr>url = address, http_method = ''POST'',
                      headers = [(''Content-Type'', ''application/json'')],
                      body = JSON_stringify P (JObj (defined_properties properties))\<rparr>
      in (case upstream request of
            Inl e \<Rightarrow> ([Fetch request], Inl e)
          | Inr response \<Rightarrow>
              if \<not> ok response
              then ([Fetch request], Inl (Error (failure @ statusText response)))
              else (case json response of
                      Inl e \<Rightarrow> ([Fetch request], Inl e)
                    | Inr result \<Rightarrow>
                        ([Fetch request], text_content (JSON_stringify_2 P result)))))"

definition rag_query_body :: "'n platform \<Rightarrow> 'n arguments
    \<Rightarrow> js_error + (string \<times> 'n jsval) list" where
  "rag_query_body P a =
     and_then (String P (arg a ''collection_name'')) (\<lambda>collection_name.
     and_then (String P (arg a ''query'')) (\<lambda>query.
     and_then (optional_number P (arg a ''limit'')) (\<lambda>limit.
     and_then (String P (arg a ''embedding_model'')) (\<lambda>embedding_model.
     and_then (optional_number P (arg a ''timeout'')) (\<lambda>timeout.
       Inr [(''collection_name'', Some (JStr collection_name)),
            (''query'', Some (JStr query)),
            (''limit'', limit),
            (''embedding_model'', Some (JStr embedding_model)),
            (''timeout'', timeout)])))))"

definition rag_query :: "'n platform \<Rightarrow> 'n upstream \<Rightarrow> 'n arguments \<Rightarrow> outcome" where
  "rag_query P upstream a =
     (case rag_query_body P a of
        Inl e \<Rightarrow> ([], Inl e)
      | Inr properties \<Rightarrow>
          post P upstream ''http://localhost:8000/rag/query'' ''RAG query failed: '' properties)"

definition upload_documents_body :: "'n platform \<Rightarrow> 'n arguments
    \<Rightarrow> js_error + (string \<times> 'n jsval) list" where
  "upload_documents_body P a =
     and_then (String P (arg a ''collection_name'')) (\<lambda>collection_name.
     (let texts = arg a ''texts''; metadata = arg a ''metadata'' in
     and_then (String P (arg a ''source'')) (\<lambda>source.
     and_then (String P (arg a ''embedding_model'')) (\<lambda>embedding_model.
       Inr [(''collection_name'', Some (JStr collection_name)),
            (''texts'', texts),
            (''metadata'', metadata),
            (''source'', Some (JStr source)),
            (''embedding_model'', Some (JStr embedding_model))]))))"

definition upload_documents :: "'n platform \<Rightarrow> 'n upstream \<Rightarrow> 'n arguments \<Rightarrow> outcome" where
  "upload_documents P upstream a =
     (case upload_documents_body P a of
        Inl e \<Rightarrow> ([], Inl e)
      | Inr properties \<Rightarrow>
          post P upstream ''http://localhost:8000/rag/documents'' ''Document upload failed: ''
            properties)"

subsection \<open>The \<^verbatim>\<open>switch\<close> on the tool name\<close>

definition CallTool :: "'n platform \<Rightarrow> 'n upstream \<Rightarrow> string \<Rightarrow> 'n arguments \<Rightarrow> outcome" where
  "CallTool P upstream tool a =
     (if tool = ''create_note'' then create_note P a
      else if tool = ''list_tools'' then list_tools P
      else if tool = ''memory_write'' then memory_write P a
      else if tool = ''rag_query'' then rag_query P upstream a
      else if tool = ''upload_documents'' then upload_documents P upstream a
      else ([], Inl (Error ''Unknown tool'')))"

section \<open>The four request handlers\<close>

text \<open>
  The server keeps no state that a handler writes: \<^verbatim>\<open>tasks\<close> is never assigned to.
  A run of the server answers a sequence of requests, each with the upstream service as
  it is at that moment.
\<close>

datatype 'n request =
    ListResourcesRequest
  | ReadResourceRequest string
  | ListToolsRequest
  | CallToolRequest string "'n arguments"

datatype 'n reply =
    ResourcesReply "Resource list"
  | ContentsReply "Contents list"
  | ToolsReply "'n Tool list"
  | ContentReply "Content list"

definition handle :: "'n platform \<Rightarrow> 'n upstream \<Rightarrow> 'n request
    \<Rightarrow> event list \<times> (js_error + 'n reply)" where
  "handle P upstream r =
     (case r of
        ListResourcesRequest \<Rightarrow> ([], Inr (ResourcesReply ListResources))
      | ReadResourceRequest u \<Rightarrow> ([], map_sum (\<lambda>e. e) ContentsReply (ReadResource P u))
      | ListToolsRequest \<Rightarrow> ([], Inr (ToolsReply ListTools))
      | CallToolRequest tool a \<Rightarrow>
          (case CallTool P upstream tool a of (events, result) \<Rightarrow>
             (events, map_sum (\<lambda>e. e) ContentReply result)))"

fun serve :: "'n platform \<Rightarrow> ('n upstream \<times> 'n request) list
    \<Rightarrow> (event list \<times> (js_error + 'n reply)) list" where
  "serve P [] = []"
| "serve P ((upstream, r) # rest) = handle P upstream r # serve P rest"


section \<open>A run-time system for closed examples\<close>

text \<open>
  \<open>Node\<close> instantiates the platform where a closed example needs one.  Its numbers are
  the integers that a double holds exactly, with \<open>None\<close> for \<^verbatim>\<open>NaN\<close>; numeric
  strings are read when they are plain runs of decimal digits.  Its URL constructor
  follows the WHATWG parser on the two kinds of input it knows: an input that does not
  start with a scheme and a colon is rejected (there is no base URL), and
  \<^verbatim>\<open>scheme:///segment\<close> with a scheme that is not special (\<^verbatim>\<open>http\<close>, \<^verbatim>\<open>https\<close>,
  \<^verbatim>\<open>ws\<close>, \<^verbatim>\<open>wss\<close>, \<^verbatim>\<open>ftp\<close>, \<^verbatim>\<open>file\<close>) and a segment of letters, digits,
  \<^verbatim>\<open>-\<close>, \<^verbatim>\<open>_\<close> and \<^verbatim>\<open>~\<close> has the path \<^verbatim>\<open>/segment\<close>.  Any other input is
  rejected too, which is not what the WHATWG parser does with every such input; the
  general theorems below hold for every platform and do not rely on \<open>Node\<close>.
\<close>

definition ascii_upper :: "char \<Rightarrow> bool" where
  "ascii_upper c = (65 \<le> (of_char c :: nat) \<and> (of_char c :: nat) \<le> 90)"

definition ascii_lower :: "char \<Rightarrow> bool" where
  "ascii_lower c = (97 \<le> (of_char c :: nat) \<and> (of_char c :: nat) \<le> 122)"

definition ascii_digit :: "char \<Rightarrow> bool" where
  "ascii_digit c = (48 \<le> (of_char c :: nat) \<and> (of_char c :: nat) \<le> 57)"

definition ascii_alpha :: "char \<Rightarrow> bool" where
  "ascii_alpha c = (ascii_upper c \<or> ascii_lower c)"

definition scheme_char :: "char \<Rightarrow> bool" where
  "scheme_char c = (ascii_alpha c \<or> ascii_digit c \<or> c = CHR ''+'' \<or> c = CHR ''-'' \<or> c = CHR ''.'')"

definition segment_char :: "char \<Rightarrow> bool" where
  "segment_char c = (ascii_alpha c \<or> ascii_digit c \<or> c = CHR ''-'' \<or> c = CHR ''_'' \<or> c = CHR ''~'')"

definition to_lower :: "char \<Rightarrow> char" where
  "to_lower c = (if ascii_upper c then char_of ((of_char c :: nat) + 32) else c)"

definition special_schemes :: "string list" where
  "special_schemes = [''http'', ''https'', ''ws'', ''wss'', ''ftp'', ''file'']"

definition Node_URL_pathname :: "string \<Rightarrow> string option" where
  "Node_URL_pathname input =
     (let scheme = takeWhile scheme_char input;
          rest = dropWhile scheme_char input
      in if (case scheme of [] \<Rightarrow> False | c # cs \<Rightarrow> ascii_alpha c)
            \<and> map to_lower scheme \<notin> set special_schemes
            \<and> take 4 rest = '':///''
            \<and> list_all segment_char (drop 4 rest)
         then Some (''/'' @ drop 4 rest)
         else None)"

fun decimal :: "nat \<Rightarrow> string" where
  "decimal n = (if n < 10 then [char_of (48 + n)] else decimal (n div 10) @ [char_of (48 + n mod 10)])"

definition Node_NumberToString :: "int option \<Rightarrow> string" where
  "Node_NumberToString n =
     (case n of
        None \<Rightarrow> ''NaN''
      | Some i \<Rightarrow> if i < 0 then ''-'' @ decimal (nat (- i)) else decimal (nat i))"

definition Node_StringToNumber :: "string \<Rightarrow> int option" where
  "Node_StringToNumber s =
     (if list_all ascii_digit s
      then Some (foldl (\<lambda>v c. 10 * v + (int (of_char c) - 48)) 0 s)
      else None)"

definition Node :: "int option platform" where
  "Node =
     \<lparr>URL_pathname = Node_URL_pathname,
      invalid_url_message = ''Invalid URL'',
      cannot_convert_message = ''Cannot convert object to primitive value'',
      StringToNumber = Node_StringToNumber,
      NumberToString = Node_NumberToString,
      number_NaN = None,
      number_zero = Some 0,
      number_one = Some 1,
      number_falsy = (\<lambda>n. n = None \<or> n = Some 0),
      number_finite = (\<lambda>n. n \<noteq> None)\<rparr>"


text \<open>An upstream service that answers every request with status 500.\<close>

definition Internal_Server_Error :: "'n upstream" where
  "Internal_Server_Error request =
     Inr \<lparr>ok = False, statusText = ''Internal Server Error'',
          json = Inr (JObj [(''detail'', JStr ''Internal Server Error'')])\<rparr>"

text \<open>The request that \<^verbatim>\<open>rag_query\<close> sends for \<^verbatim>\<open>{collection_name: "docs", query: "q"}\<close>.\<close>

definition example_query :: Request where
  \<open>example_query =
     \<lparr>url = ''http://localhost:8000/rag/query'', http_method = ''POST'',
      headers = [(''Content-Type'', ''application/json'')],
      body = ''{"collection_name":"docs","query":"q","embedding_model":"undefined"}''\<rparr>\<close>

section \<open>Properties\<close>

lemmas characters = dquote_def backslash_def newline_def quote_def quote_char_def

lemma CallTool_create_note: "CallTool P upstream ''create_note'' a = create_note P a"
  by (simp add: CallTool_def)

lemma CallTool_list_tools: "CallTool P upstream ''list_tools'' a = list_tools P"
  by (simp add: CallTool_def)

lemma CallTool_memory_write: "CallTool P upstream ''memory_write'' a = memory_write P a"
  by (simp add: CallTool_def)

lemma CallTool_rag_query: "CallTool P upstream ''rag_query'' a = rag_query P upstream a"
  by (simp add: CallTool_def)

lemma CallTool_upload_documents:
  "CallTool P upstream ''upload_documents'' a = upload_documents P upstream a"
  by (simp add: CallTool_def)

subsection \<open>\<^verbatim>\<open>create_note\<close>\<close>

text \<open>
  Claim C1.  Called with \<^verbatim>\<open>{title: "A", content: "B"}\<close>, \<^verbatim>\<open>create_note\<close> logs and
  returns one text block \<^verbatim>\<open>Created note: A\<close>.  The claim goes on to say that the call
  fails when \<^verbatim>\<open>title\<close> or \<^verbatim>\<open>content\<close> is omitted.  The handler tests
  \<^verbatim>\<open>!title || !content\<close> to that end, but on the results of \<^verbatim>\<open>String(...)\<close>, and
  \<^verbatim>\<open>String(undefined)\<close> is the non-empty string \<^verbatim>\<open>undefined\<close>: with the title omitted
  the call succeeds with \<^verbatim>\<open>Created note: undefined\<close>, with the content omitted it
  succeeds with the title given.
\<close>

theorem create_note_omitted_field:
  "CallTool P upstream ''create_note'' (Some [(''title'', JStr ''A''), (''content'', JStr ''B'')])
     = ([ConsoleLog ''Created note: A''], text_content ''Created note: A'')
   \<and> CallTool P upstream ''create_note'' (Some [(''content'', JStr ''B'')])
     = ([ConsoleLog ''Created note: undefined''], text_content ''Created note: undefined'')
   \<and> CallTool P upstream ''create_note'' (Some [(''title'', JStr ''A'')])
     = ([ConsoleLog ''Created note: A''], text_content ''Created note: A'')"
  by (simp add: CallTool_create_note create_note_def String_def arg_def)

theorem create_note_omitted_field_witness:
  "snd (CallTool Node Internal_Server_Error ''create_note'' (Some [(''content'', JStr ''B'')]))
     = Inr [\<lparr>content_type = ''text'', content_text = ''Created note: undefined''\<rparr>]"
  using create_note_omitted_field [of Node Internal_Server_Error]
  by (simp add: text_content_def)

subsection \<open>\<^verbatim>\<open>memory_write\<close>\<close>

lemma memory_write_try_strings:
  assumes "arg a ''source'' = Some (JStr source)" and "arg a ''task_id'' = Some (JStr task_id)"
  shows "memory_write_try P a =
     (if source = [] \<or> task_id = [] \<or> \<not> truthy P (arg a ''payload'')
      then ([], Inl (Error ''Source, task_id, and payload are required''))
      else (case String P (property (arg a ''payload'') ''text'') of
              Inl e \<Rightarrow> ([], Inl e)
            | Inr payload_text \<Rightarrow>
                ([ConsoleLog (''Received memory chunk from '' @ source @ '' for task ''
                              @ task_id @ '': '' @ payload_text)],
                 text_content (''Processed memory chunk from '' @ source
                               @ '' for task '' @ task_id))))"
  using assms by (simp add: memory_write_try_def String_def Let_def)

text \<open>
  Claim C2, as amended.  \<^verbatim>\<open>memory_write\<close> tests one thing before it runs: that the
  strings made of \<^verbatim>\<open>source\<close> and \<^verbatim>\<open>task_id\<close> are not empty and that
  \<^verbatim>\<open>payload\<close> is truthy.  With \<^verbatim>\<open>source\<close> and \<^verbatim>\<open>task_id\<close> given as strings: when
  the test fails the call fails with the message \<^verbatim>\<open>Failed to process memory_write:
  Source, task_id, and payload are required\<close>, which names all three fields whichever
  one is at fault; when it passes, the fields \<^verbatim>\<open>text\<close>, \<^verbatim>\<open>tag\<close> and \<^verbatim>\<open>timestamp\<close>
  of the payload are not looked at for validity, and the call succeeds as soon as
  \<^verbatim>\<open>payload.text\<close> can be turned into a string for the log line.
\<close>

theorem memory_write_validation:
  assumes "arg a ''source'' = Some (JStr source)" and "arg a ''task_id'' = Some (JStr task_id)"
  shows "(source = [] \<or> task_id = [] \<or> \<not> truthy P (arg a ''payload'') \<longrightarrow>
            snd (CallTool P upstream ''memory_write'' a) =
              Inl (Error ''Failed to process memory_write: Source, task_id, and payload are required''))
       \<and> (source \<noteq> [] \<and> task_id \<noteq> [] \<and> truthy P (arg a ''payload'')
            \<and> String P (property (arg a ''payload'') ''text'') = Inr payload_text \<longrightarrow>
            snd (CallTool P upstream ''memory_write'' a) =
              text_content (''Processed memory chunk from '' @ source @ '' for task '' @ task_id))"
proof (intro conjI impI)
  assume "source = [] \<or> task_id = [] \<or> \<not> truthy P (arg a ''payload'')"
  then have "memory_write_try P a = ([], Inl (Error ''Source, task_id, and payload are required''))"
    using memory_write_try_strings [OF assms, of P] by simp
  then show "snd (CallTool P upstream ''memory_write'' a) =
      Inl (Error ''Failed to process memory_write: Source, task_id, and payload are required'')"
    by (simp add: CallTool_memory_write memory_write_def)
next
  assume ok: "source \<noteq> [] \<and> task_id \<noteq> [] \<and> truthy P (arg a ''payload'')
            \<and> String P (property (arg a ''payload'') ''text'') = Inr payload_text"
  then have "snd (memory_write_try P a) =
      text_content (''Processed memory chunk from '' @ source @ '' for task '' @ task_id)"
    using memory_write_try_strings [OF assms, of P] by simp
  then show "snd (CallTool P upstream ''memory_write'' a) =
      text_content (''Processed memory chunk from '' @ source @ '' for task '' @ task_id)"
    by (cases "memory_write_try P a")
       (auto simp: CallTool_memory_write memory_write_def text_content_def split: sum.splits)
qed

theorem memory_write_validation_witness:
  "snd (CallTool Node Internal_Server_Error ''memory_write''
          (Some [(''source'', JStr ''agent''), (''task_id'', JStr ''7'')])) =
     Inl (Error ''Failed to process memory_write: Source, task_id, and payload are required'')
   \<and> snd (CallTool Node Internal_Server_Error ''memory_write''
          (Some [(''source'', JStr ''agent''), (''task_id'', JStr ''7''),
                 (''payload'', JObj [(''text'', JStr ''hello'')])])) =
     Inr [\<lparr>content_type = ''text'',
           content_text = ''Processed memory chunk from agent for task 7''\<rparr>]"
  using memory_write_validation [where P = Node and upstream = Internal_Server_Error
          and a = "Some [(''source'', JStr ''agent''), (''task_id'', JStr ''7'')]"
          and source = "''agent''" and task_id = "''7''"]
        memory_write_validation [where P = Node and upstream = Internal_Server_Error
          and a = "Some [(''source'', JStr ''agent''), (''task_id'', JStr ''7''),
                         (''payload'', JObj [(''text'', JStr ''hello'')])]"
          and source = "''agent''" and task_id = "''7''" and payload_text = "''hello''"]
  by (simp add: arg_def String_def text_content_def)

text \<open>
  The claim as stated fails: a payload with none of \<^verbatim>\<open>text\<close>, \<^verbatim>\<open>tag\<close>,
  \<^verbatim>\<open>timestamp\<close> is accepted.
\<close>

theorem memory_write_empty_payload_accepted:
  "CallTool Node Internal_Server_Error ''memory_write''
     (Some [(''source'', JStr ''agent''), (''task_id'', JStr ''7''), (''payload'', JObj [])]) =
   ([ConsoleLog ''Received memory chunk from agent for task 7: undefined''],
    Inr [\<lparr>content_type = ''text'',
          content_text = ''Processed memory chunk from agent for task 7''\<rparr>])"
  by (simp add: CallTool_memory_write memory_write_def memory_write_try_def String_def arg_def
        text_content_def)

lemma fst_post:
  "fst (post P upstream address failure properties) =
     [Fetch \<lparr>url = address, http_method = ''POST'',
             headers = [(''Content-Type'', ''application/json'')],
             body = JSON_stringify P (JObj (defined_properties properties))\<rparr>]"
  by (simp add: post_def Let_def split: sum.splits)

subsection \<open>The delegating tools\<close>

text \<open>
  Claim C3.  The claim says that an argument the caller left out is absent from the
  body of the \<^verbatim>\<open>POST\<close>.  That holds for \<^verbatim>\<open>limit\<close>, \<^verbatim>\<open>timeout\<close>, \<^verbatim>\<open>texts\<close> and
  \<^verbatim>\<open>metadata\<close>, which the handlers leave \<^verbatim>\<open>undefined\<close>.  The string arguments go
  through \<^verbatim>\<open>String(...)\<close> first, so an omitted \<^verbatim>\<open>embedding_model\<close> or \<^verbatim>\<open>source\<close>
  is sent as the text \<^verbatim>\<open>undefined\<close>: here are the bodies sent when only the required
  arguments are given.
\<close>

theorem delegating_tools_send_undefined:
  "fst (CallTool P upstream ''rag_query''
          (Some [(''collection_name'', JStr c), (''query'', JStr q)])) =
     [Fetch \<lparr>url = ''http://localhost:8000/rag/query'', http_method = ''POST'',
             headers = [(''Content-Type'', ''application/json'')],
             body = JSON_stringify P
               (JObj [(''collection_name'', JStr c), (''query'', JStr q),
                      (''embedding_model'', JStr ''undefined'')])\<rparr>]
   \<and> fst (CallTool P upstream ''upload_documents''
          (Some [(''collection_name'', JStr c), (''texts'', JArr ts)])) =
     [Fetch \<lparr>url = ''http://localhost:8000/rag/documents'', http_method = ''POST'',
             headers = [(''Content-Type'', ''application/json'')],
             body = JSON_stringify P
               (JObj [(''collection_name'', JStr c), (''texts'', JArr ts),
                      (''source'', JStr ''undefined''),
                      (''embedding_model'', JStr ''undefined'')])\<rparr>]"
proof
  have "rag_query_body P (Some [(''collection_name'', JStr c), (''query'', JStr q)]) =
      Inr [(''collection_name'', Some (JStr c)), (''query'', Some (JStr q)), (''limit'', None),
           (''embedding_model'', Some (JStr ''undefined'')), (''timeout'', None)]"
    by (simp add: rag_query_body_def and_then_def String_def arg_def optional_number_def)
  then show "fst (CallTool P upstream ''rag_query''
          (Some [(''collection_name'', JStr c), (''query'', JStr q)])) =
     [Fetch \<lparr>url = ''http://localhost:8000/rag/query'', http_method = ''POST'',
             headers = [(''Content-Type'', ''application/json'')],
             body = JSON_stringify P
               (JObj [(''collection_name'', JStr c), (''query'', JStr q),
                      (''embedding_model'', JStr ''undefined'')])\<rparr>]"
    by (simp add: CallTool_rag_query rag_query_def fst_post)
next
  have "upload_documents_body P (Some [(''collection_name'', JStr c), (''texts'', JArr ts)]) =
      Inr [(''collection_name'', Some (JStr c)), (''texts'', Some (JArr ts)),
           (''metadata'', None), (''source'', Some (JStr ''undefined'')),
           (''embedding_model'', Some (JStr ''undefined''))]"
    by (simp add: upload_documents_body_def and_then_def String_def arg_def Let_def)
  then show "fst (CallTool P upstream ''upload_documents''
          (Some [(''collection_name'', JStr c), (''texts'', JArr ts)])) =
     [Fetch \<lparr>url = ''http://localhost:8000/rag/documents'', http_method = ''POST'',
             headers = [(''Content-Type'', ''application/json'')],
             body = JSON_stringify P
               (JObj [(''collection_name'', JStr c), (''texts'', JArr ts),
                      (''source'', JStr ''undefined''),
                      (''embedding_model'', JStr ''undefined'')])\<rparr>]"
    by (simp add: CallTool_upload_documents upload_documents_def fst_post)
qed

theorem delegating_tools_send_undefined_witness:
  \<open>map (\<lambda>e. case e of Fetch r \<Rightarrow> body r | _ \<Rightarrow> [])
     (fst (CallTool Node Internal_Server_Error ''rag_query''
        (Some [(''collection_name'', JStr ''docs''), (''query'', JStr ''q'')]))) =
   [''{"collection_name":"docs","query":"q","embedding_model":"undefined"}'']\<close>
  using delegating_tools_send_undefined [where P = Node and upstream = Internal_Server_Error
          and c = "''docs''" and q = "''q''"]
  by (simp add: JSON_stringify_def wrap_def characters)

subsection \<open>The default branch\<close>

text \<open>
  Claim C4.  A tool name that is not one of the names the registry lists falls to the
  default branch of the \<^verbatim>\<open>switch\<close>: the call fails with the error \<^verbatim>\<open>Unknown tool\<close>,
  and nothing was logged and no request was sent.  \<open>CallTool\<close> is a total function into
  results and errors, so no branch ends without one of the two.
\<close>

theorem unknown_tool:
  assumes "tool \<notin> set (map tool_name (ListTools :: 'n Tool list))"
  shows "CallTool (P :: 'n platform) upstream tool a = ([], Inl (Error ''Unknown tool''))"
  using assms by (simp add: ListTools_def CallTool_def)

theorem unknown_tool_witness:
  "''delete_everything'' \<notin> set (map tool_name (ListTools :: int option Tool list))
   \<and> CallTool Node Internal_Server_Error ''delete_everything'' (Some [(''all'', JBool True)])
       = ([], Inl (Error ''Unknown tool''))"
proof -
  have h: "''delete_everything'' \<notin> set (map tool_name (ListTools :: int option Tool list))"
    by (simp add: ListTools_def)
  show ?thesis
    using h unknown_tool [OF h, of Node Internal_Server_Error "Some [(''all'', JBool True)]"]
    by simp
qed

subsection \<open>Resources\<close>

lemma get_member_tasks:
  assumes "i \<in> set (map fst tasks)"
  shows "\<exists>ttl d. (get_member tasks i :: 'n member) =
           Data (JObj [(''id'', JStr i), (''title'', JStr ttl), (''description'', JStr d)])"
  using assms by (auto simp: tasks_def get_member_def Task_json_def)

text \<open>
  Claim C5.  For every identifier \<open>i\<close> of the catalog, the URI \<^verbatim>\<open>task:///i\<close> is
  among those that list-resources returns, and read-resource on it returns the JSON
  text of a record whose \<^verbatim>\<open>id\<close> is \<open>i\<close>.  The URL constructor is the platform's; of
  it the theorem needs that it gives \<^verbatim>\<open>task:///i\<close> the path \<^verbatim>\<open>/i\<close>, as the WHATWG
  parser does for the identifiers \<^verbatim>\<open>1\<close> and \<^verbatim>\<open>2\<close> of the catalog.
\<close>

theorem read_listed_resource:
  assumes "i \<in> set (map fst tasks)"
    and "URL_pathname P (''task:///'' @ i) = Some (''/'' @ i)"
  shows "''task:///'' @ i \<in> set (map uri ListResources)
       \<and> (\<exists>ttl d. ReadResource P (''task:///'' @ i) =
             Inr [\<lparr>contents_uri = ''task:///'' @ i,
                   contents_mimeType = ''application/json'',
                   contents_text = Some (JSON_stringify_2 P
                     (JObj [(''id'', JStr i), (''title'', JStr ttl),
                            (''description'', JStr d)]))\<rparr>])"
proof
  show "''task:///'' @ i \<in> set (map uri ListResources)"
    using assms(1) by (auto simp: ListResources_def list_resources_def tasks_def)
next
  obtain ttl d where
    "(get_member tasks i :: 'a member) =
       Data (JObj [(''id'', JStr i), (''title'', JStr ttl), (''description'', JStr d)])"
    using get_member_tasks [OF assms(1)] by blast
  then have "ReadResource P (''task:///'' @ i) =
             Inr [\<lparr>contents_uri = ''task:///'' @ i,
                   contents_mimeType = ''application/json'',
                   contents_text = Some (JSON_stringify_2 P
                     (JObj [(''id'', JStr i), (''title'', JStr ttl),
                            (''description'', JStr d)]))\<rparr>]"
    using assms(2) by (simp add: ReadResource_def read_resource_def Let_def)
  then show "\<exists>ttl d. ReadResource P (''task:///'' @ i) =
             Inr [\<lparr>contents_uri = ''task:///'' @ i,
                   contents_mimeType = ''application/json'',
                   contents_text = Some (JSON_stringify_2 P
                     (JObj [(''id'', JStr i), (''title'', JStr ttl),
                            (''description'', JStr d)]))\<rparr>]"
    by blast
qed

lemma Node_parses_task_1: "URL_pathname Node (''task:///'' @ ''1'') = Some (''/'' @ ''1'')"
proof -
  have "Node_URL_pathname ''task:///1'' = Some ''/1''" by code_simp
  then show ?thesis by (simp add: Node_def)
qed

theorem read_listed_resource_witness:
  "''1'' \<in> set (map fst tasks)
   \<and> URL_pathname Node ''task:///1'' = Some ''/1''
   \<and> ''task:///1'' \<in> set (map uri ListResources)
   \<and> (\<exists>ttl d. ReadResource Node ''task:///1'' =
         Inr [\<lparr>contents_uri = ''task:///1'', contents_mimeType = ''application/json'',
               contents_text = Some (JSON_stringify_2 Node
                 (JObj [(''id'', JStr ''1''), (''title'', JStr ttl),
                        (''description'', JStr d)]))\<rparr>])"
proof -
  have h: "''1'' \<in> set (map fst tasks)" by (simp add: tasks_def)
  show ?thesis
    using h Node_parses_task_1 read_listed_resource [OF h Node_parses_task_1] by simp
qed

lemma read_task_1:
  \<open>ReadResource Node ''task:///1'' =
     Inr [\<lparr>contents_uri = ''task:///1'', contents_mimeType = ''application/json'',
           contents_text = Some (''{'' @ [newline] @ ''  "id": "1",'' @ [newline]
             @ ''  "title": "First Task",'' @ [newline]
             @ ''  "description": "This is task 1"'' @ [newline] @ ''}'')\<rparr>]\<close>
  using Node_parses_task_1
  by (simp add: ReadResource_def read_resource_def Let_def get_member_def tasks_def
        Task_json_def JSON_stringify_2_def wrap_def characters)

subsection \<open>Upstream failure\<close>

lemma rag_query_conversion_throws:
  "rag_query_body P a = Inl e \<Longrightarrow> CallTool P upstream ''rag_query'' a = ([], Inl e)"
  by (simp add: CallTool_rag_query rag_query_def)

text \<open>
  Claim C6.  Take a \<^verbatim>\<open>rag_query\<close> call whose arguments convert (the statements before
  \<^verbatim>\<open>fetch\<close> do not throw) into the properties of the body.  The call sends the
  \<^verbatim>\<open>POST\<close> of these properties to \<^verbatim>\<open>http://localhost:8000/rag/query\<close>.  When the
  upstream answers that request with a status that is not a success (\<^verbatim>\<open>response.ok\<close>
  is false), the call fails with an error whose message is \<^verbatim>\<open>RAG query failed: \<close>
  followed by the status text of the response, and that request is the only one sent:
  there is no retry.
\<close>

theorem rag_query_upstream_failure:
  assumes "rag_query_body P a = Inr properties"
    and "upstream \<lparr>url = ''http://localhost:8000/rag/query'', http_method = ''POST'',
                   headers = [(''Content-Type'', ''application/json'')],
                   body = JSON_stringify P (JObj (defined_properties properties))\<rparr>
           = Inr response"
    and "\<not> ok response"
  shows "CallTool P upstream ''rag_query'' a =
           ([Fetch \<lparr>url = ''http://localhost:8000/rag/query'', http_method = ''POST'',
                    headers = [(''Content-Type'', ''application/json'')],
                    body = JSON_stringify P (JObj (defined_properties properties))\<rparr>],
            Inl (Error (''RAG query failed: '' @ statusText response)))"
  using assms by (simp add: CallTool_rag_query rag_query_def post_def Let_def)

theorem rag_query_upstream_failure_witness:
  "CallTool Node Internal_Server_Error ''rag_query''
     (Some [(''collection_name'', JStr ''docs''), (''query'', JStr ''q'')]) =
   ([Fetch example_query], Inl (Error ''RAG query failed: Internal Server Error''))"
proof -
  have converted: "rag_query_body Node (Some [(''collection_name'', JStr ''docs''), (''query'', JStr ''q'')]) =
      Inr [(''collection_name'', Some (JStr ''docs'')), (''query'', Some (JStr ''q'')),
           (''limit'', None), (''embedding_model'', Some (JStr ''undefined'')),
           (''timeout'', None)]"
    by (simp add: rag_query_body_def and_then_def String_def arg_def optional_number_def)
  have answer: "(Internal_Server_Error :: int option upstream)
      \<lparr>url = ''http://localhost:8000/rag/query'', http_method = ''POST'',
       headers = [(''Content-Type'', ''application/json'')],
       body = JSON_stringify Node (JObj (defined_properties
         [(''collection_name'', Some (JStr ''docs'')), (''query'', Some (JStr ''q'')),
          (''limit'', None), (''embedding_model'', Some (JStr ''undefined'')),
          (''timeout'', None)]))\<rparr> =
      Inr \<lparr>ok = False, statusText = ''Internal Server Error'',
           json = Inr (JObj [(''detail'', JStr ''Internal Server Error'')])\<rparr>"
    by (simp add: Internal_Server_Error_def)
  have refused: "\<not> ok \<lparr>ok = False, statusText = ''Internal Server Error'',
           json = Inr (JObj [(''detail'', JStr ''Internal Server Error'') :: string \<times> int option json])\<rparr>"
    by simp
  show ?thesis
    using converted answer refused
      rag_query_upstream_failure [where P = Node and upstream = Internal_Server_Error
        and a = "Some [(''collection_name'', JStr ''docs''), (''query'', JStr ''q'')]"
        and properties = "[(''collection_name'', Some (JStr ''docs'')),
          (''query'', Some (JStr ''q'')), (''limit'', None),
          (''embedding_model'', Some (JStr ''undefined'')), (''timeout'', None)]"
        and response = "\<lparr>ok = False, statusText = ''Internal Server Error'',
           json = Inr (JObj [(''detail'', JStr ''Internal Server Error'')])\<rparr>"]
    by (simp add: example_query_def JSON_stringify_def wrap_def characters)
qed

subsection \<open>Identifiers that the catalog does not hold\<close>

text \<open>
  Claim C7.  The lookup \<^verbatim>\<open>tasks[id]\<close> compares whole strings: an identifier that is
  neither a key of the catalog nor the name of a member of \<^verbatim>\<open>Object.prototype\<close> gives
  the error \<^verbatim>\<open>Task id not found\<close>.  The claim says so of every identifier absent from
  the catalog, and there the handler misses a case: \<^verbatim>\<open>tasks\<close> is an object literal,
  so \<^verbatim>\<open>tasks["constructor"]\<close> is the inherited function \<^verbatim>\<open>Object\<close>, which is truthy,
  and the request is answered with a contents block (whose \<^verbatim>\<open>text\<close> is
  \<^verbatim>\<open>undefined\<close>) instead of the error.
\<close>

theorem read_inherited_member:
  "(URL_pathname P u = Some (''/'' @ i) \<and> map_of tasks i = None
      \<and> i \<notin> set Object_prototype_functions \<and> i \<noteq> ''__proto__''
      \<longrightarrow> ReadResource P u = Inl (Error (''Task '' @ i @ '' not found'')))
   \<and> (URL_pathname P u = Some ''/constructor''
      \<longrightarrow> ReadResource P u =
            Inr [\<lparr>contents_uri = u, contents_mimeType = ''application/json'',
                  contents_text = None\<rparr>])"
  by (simp add: ReadResource_def read_resource_def Let_def get_member_def tasks_def
        Object_prototype_functions_def)

lemma Node_parses_constructor: "URL_pathname Node ''task:///constructor'' = Some ''/constructor''"
proof -
  have "Node_URL_pathname ''task:///constructor'' = Some ''/constructor''" by code_simp
  then show ?thesis by (simp add: Node_def)
qed

lemma Node_parses_task_3: "URL_pathname Node ''task:///3'' = Some (''/'' @ ''3'')"
proof -
  have "Node_URL_pathname ''task:///3'' = Some ''/3''" by code_simp
  then show ?thesis by (simp add: Node_def)
qed

theorem read_inherited_member_witness:
  "ReadResource Node ''task:///3'' = Inl (Error ''Task 3 not found'')
   \<and> ReadResource Node ''task:///constructor'' =
       Inr [\<lparr>contents_uri = ''task:///constructor'', contents_mimeType = ''application/json'',
             contents_text = None\<rparr>]"
  using read_inherited_member [of Node "''task:///3''" "''3''"]
        read_inherited_member [of Node "''task:///constructor''" "''3''"]
        Node_parses_constructor Node_parses_task_3
  by (simp add: tasks_def Object_prototype_functions_def)

subsection \<open>The registry\<close>

text \<open>
  Claim C8.  The text that the tool \<^verbatim>\<open>list_tools\<close> returns is the JSON array of the
  names that the list-tools handler declares, in the same order.
\<close>

theorem list_tools_lockstep:
  "CallTool P upstream ''list_tools'' a =
     ([], text_content (JSON_stringify_2 P
            (JArr (map JStr (map tool_name (ListTools :: 'm Tool list))))))"
  by (simp add: CallTool_list_tools list_tools_def ListTools_def)

theorem list_tools_lockstep_witness:
  \<open>CallTool Node Internal_Server_Error ''list_tools'' None =
     ([], Inr [\<lparr>content_type = ''text'',
                content_text = ''['' @ [newline] @ ''  "create_note",'' @ [newline]
                  @ ''  "memory_write",'' @ [newline] @ ''  "list_tools",'' @ [newline]
                  @ ''  "rag_query",'' @ [newline] @ ''  "upload_documents"'' @ [newline]
                  @ '']''\<rparr>])\<close>
  using list_tools_lockstep [where P = Node and upstream = Internal_Server_Error and a = None
          and 'm = unit]
  by (simp add: ListTools_def text_content_def JSON_stringify_2_def wrap_def characters)

lemma length_serve: "length (serve P rs) = length rs"
  by (induction rs) auto

lemma nth_serve: "k < length rs \<Longrightarrow> serve P rs ! k = handle P (fst (rs ! k)) (snd (rs ! k))"
proof (induction rs arbitrary: k)
  case Nil
  then show ?case by simp
next
  case (Cons r rs)
  then show ?case by (cases r; cases k) simp_all
qed

text \<open>
  Claim C9.  The list-tools handler returns the five tools \<^verbatim>\<open>create_note\<close>,
  \<^verbatim>\<open>memory_write\<close>, \<^verbatim>\<open>list_tools\<close>, \<^verbatim>\<open>rag_query\<close>, \<^verbatim>\<open>upload_documents\<close> in this
  order, each with a name, a description and an input schema of type object; and
  wherever a list-tools request stands in a sequence of requests, whatever the others
  are, its answer is that same list.
\<close>

theorem list_tools_fixed:
  "map tool_name (ListTools :: 'n Tool list) =
     [''create_note'', ''memory_write'', ''list_tools'', ''rag_query'', ''upload_documents'']
   \<and> list_all (\<lambda>t. tool_description t \<noteq> []
          \<and> (\<exists>rest. inputSchema t = JObj ((''type'', JStr ''object'') # rest)))
        (ListTools :: 'n Tool list)
   \<and> (k < length rs \<and> snd (rs ! k) = ListToolsRequest
        \<longrightarrow> serve (P :: 'n platform) rs ! k = ([], Inr (ToolsReply ListTools)))"
proof (intro conjI impI)
  show "map tool_name (ListTools :: 'n Tool list) =
     [''create_note'', ''memory_write'', ''list_tools'', ''rag_query'', ''upload_documents'']"
    by (simp add: ListTools_def)
  show "list_all (\<lambda>t. tool_description t \<noteq> []
          \<and> (\<exists>rest. inputSchema t = JObj ((''type'', JStr ''object'') # rest)))
        (ListTools :: 'n Tool list)"
    by (simp add: ListTools_def object_schema_def)
  assume "k < length rs \<and> snd (rs ! k) = ListToolsRequest"
  then show "serve P rs ! k = ([], Inr (ToolsReply ListTools))"
    by (simp add: nth_serve handle_def)
qed

theorem list_tools_fixed_witness:
  "serve Node
     [(Internal_Server_Error, CallToolRequest ''create_note'' None),
      (Internal_Server_Error, ListToolsRequest),
      (Internal_Server_Error, ReadResourceRequest ''task:///1''),
      (Internal_Server_Error, ListToolsRequest)] ! 3 = ([], Inr (ToolsReply ListTools))
   \<and> serve Node [(Internal_Server_Error, ListToolsRequest)] ! 0 = ([], Inr (ToolsReply ListTools))"
  using list_tools_fixed [where P = Node and k = 3 and rs =
     "[(Internal_Server_Error, CallToolRequest ''create_note'' None),
      (Internal_Server_Error, ListToolsRequest),
      (Internal_Server_Error, ReadResourceRequest ''task:///1''),
      (Internal_Server_Error, ListToolsRequest)]"]
     list_tools_fixed [where P = Node and k = 0 and rs =
       "[(Internal_Server_Error, ListToolsRequest)]"]
  by simp

subsection \<open>URIs that do not parse\<close>

text \<open>
  Claim C10.  When the URL constructor rejects the \<^verbatim>\<open>uri\<close> of a read-resource
  request, the handler fails with the constructor's \<^verbatim>\<open>TypeError\<close>, whatever the
  catalog holds: no lookup has taken place, and the error is not the \<^verbatim>\<open>Error\<close> that
  reports a missing task.  The identifier is the path without its first slash, and only
  that one: a second slash stays.
\<close>

theorem invalid_uri_rejected:
  assumes "URL_pathname P u = None"
  shows "read_resource P store u = Inl (TypeError (invalid_url_message P))
       \<and> read_resource P store u \<noteq> Inl (Error m)
       \<and> replace_leading_slash (CHR ''/'' # s) = s"
  using assms by (simp add: read_resource_def)

theorem invalid_uri_rejected_witness:
  "URL_pathname Node ''not a uri'' = None
   \<and> ReadResource Node ''not a uri'' = Inl (TypeError ''Invalid URL'')
   \<and> replace_leading_slash ''//1'' = ''/1''"
proof -
  have "Node_URL_pathname ''not a uri'' = None" by code_simp
  then have h: "URL_pathname Node ''not a uri'' = None" by (simp add: Node_def)
  show ?thesis
    using h invalid_uri_rejected [OF h, of tasks "''x''" "''/1''"]
    by (simp add: ReadResource_def Node_def)
qed

end
